theory Spec2Isabelle
  imports Complex_Main
begin

section \<open>Rate-limit model (networkpype/throttler/rate_limit.py)\<close>

text \<open>
  The three classes of the module are pydantic models. Each becomes a record with the
  fields of the class, and the keyword constructor becomes a function from optional
  arguments (an omitted keyword is \<open>None\<close>) to either the list of validation errors
  or the instance. Python's unbounded \<open>int\<close> is \<open>int\<close>; a \<open>float\<close> of seconds is
  modelled as an exact \<open>real\<close>.
\<close>

datatype error_type = missing | greater_than_equal | frozen_instance

type_synonym validation_error = "string \<times> error_type"

text \<open>
  A field declared \<open>Field(description=...)\<close> has no default, so it is required; a field
  declared with \<open>ge=b\<close> is also checked against the bound.
\<close>

definition required_field :: "string \<Rightarrow> 'a option \<Rightarrow> validation_error list" where
  "required_field name v = (case v of None \<Rightarrow> [(name, missing)] | Some _ \<Rightarrow> [])"

definition required_field_ge :: "string \<Rightarrow> 'a::linorder \<Rightarrow> 'a option \<Rightarrow> validation_error list" where
  "required_field_ge name b v =
     (case v of
        None \<Rightarrow> [(name, missing)]
      | Some x \<Rightarrow> if b \<le> x then [] else [(name, greater_than_equal)])"

record LinkedLimitWeightPair =
  limit_id :: string
  weight :: int

definition mk_LinkedLimitWeightPair ::
  "string option \<Rightarrow> int option \<Rightarrow> validation_error list + LinkedLimitWeightPair" where
  "mk_LinkedLimitWeightPair a_limit_id a_weight =
     (let errs = required_field ''limit_id'' a_limit_id
               @ required_field_ge ''weight'' 0 a_weight
      in if errs = [] then
           Inr \<lparr>LinkedLimitWeightPair.limit_id = the a_limit_id,
                LinkedLimitWeightPair.weight = the a_weight\<rparr>
         else Inl errs)"

record RateLimit =
  limit_id :: string
  limit :: int
  time_interval :: real
  weight :: int
  linked_limits :: "LinkedLimitWeightPair list"

text \<open>\<open>linked_limits\<close> is the only field with a default (\<open>default_factory=list\<close>).\<close>

definition mk_RateLimit ::
  "string option \<Rightarrow> int option \<Rightarrow> real option \<Rightarrow> int option \<Rightarrow>
   LinkedLimitWeightPair list option \<Rightarrow> validation_error list + RateLimit" where
  "mk_RateLimit a_limit_id a_limit a_time_interval a_weight a_linked_limits =
     (let errs = required_field ''limit_id'' a_limit_id
               @ required_field_ge ''limit'' 0 a_limit
               @ required_field_ge ''time_interval'' 0 a_time_interval
               @ required_field_ge ''weight'' 0 a_weight
      in if errs = [] then
           Inr \<lparr>RateLimit.limit_id = the a_limit_id,
                limit = the a_limit,
                time_interval = the a_time_interval,
                RateLimit.weight = the a_weight,
                linked_limits = (case a_linked_limits of None \<Rightarrow> [] | Some ps \<Rightarrow> ps)\<rparr>
         else Inl errs)"

record TaskLog =
  timestamp :: real
  rate_limit :: RateLimit
  weight :: int

text \<open>The \<open>weight\<close> of a \<open>TaskLog\<close> is declared without \<open>ge\<close>: required, but unchecked.\<close>

definition mk_TaskLog ::
  "real option \<Rightarrow> RateLimit option \<Rightarrow> int option \<Rightarrow> validation_error list + TaskLog" where
  "mk_TaskLog a_timestamp a_rate_limit a_weight =
     (let errs = required_field ''timestamp'' a_timestamp
               @ required_field ''rate_limit'' a_rate_limit
               @ required_field ''weight'' a_weight
      in if errs = [] then
           Inr \<lparr>timestamp = the a_timestamp,
                rate_limit = the a_rate_limit,
                TaskLog.weight = the a_weight\<rparr>
         else Inl errs)"

text \<open>
  \<open>RateLimit.filter_rate_limits_list\<close>: the loop walks \<open>rate_limits\<close> and appends to the
  fresh list \<open>filtered_list\<close>. The pair returned is the argument list as the call leaves
  it, and the list the method returns.
\<close>

fun filter_loop :: "RateLimit list \<Rightarrow> string list \<Rightarrow> RateLimit list \<Rightarrow> RateLimit list" where
  "filter_loop [] limit_ids filtered_list = filtered_list"
| "filter_loop (l # rest) limit_ids filtered_list =
     (if RateLimit.limit_id l \<notin> set limit_ids
      then filter_loop rest limit_ids (filtered_list @ [l])
      else filter_loop rest limit_ids filtered_list)"

definition filter_rate_limits_list ::
  "RateLimit list \<Rightarrow> string list \<Rightarrow> RateLimit list \<times> RateLimit list" where
  "filter_rate_limits_list rate_limits limit_ids =
     (rate_limits, filter_loop rate_limits limit_ids [])"

text \<open>
  Attribute assignment on an instance. None of the three classes declares a
  \<open>model_config\<close>, so pydantic's defaults apply: instances are not frozen and an
  assignment is not validated. \<open>setattr\<close> on a frozen model raises \<open>frozen_instance\<close>.
\<close>

record ConfigDict =
  frozen :: bool
  validate_assignment :: bool

definition model_config :: ConfigDict where
  "model_config = \<lparr>frozen = False, validate_assignment = False\<rparr>"

datatype RateLimit_attr =
    set_limit_id string
  | set_limit int
  | set_time_interval real
  | set_weight int
  | set_linked_limits "LinkedLimitWeightPair list"

definition setattr_RateLimit :: "RateLimit \<Rightarrow> RateLimit_attr \<Rightarrow> error_type + RateLimit" where
  "setattr_RateLimit r a =
     (if frozen model_config then Inl frozen_instance
      else Inr (case a of
                  set_limit_id v \<Rightarrow> r\<lparr>RateLimit.limit_id := v\<rparr>
                | set_limit v \<Rightarrow> r\<lparr>limit := v\<rparr>
                | set_time_interval v \<Rightarrow> r\<lparr>time_interval := v\<rparr>
                | set_weight v \<Rightarrow> r\<lparr>RateLimit.weight := v\<rparr>
                | set_linked_limits v \<Rightarrow> r\<lparr>linked_limits := v\<rparr>))"

datatype LinkedLimitWeightPair_attr =
    set_pair_limit_id string
  | set_pair_weight int

definition setattr_LinkedLimitWeightPair ::
  "LinkedLimitWeightPair \<Rightarrow> LinkedLimitWeightPair_attr \<Rightarrow> error_type + LinkedLimitWeightPair" where
  "setattr_LinkedLimitWeightPair p a =
     (if frozen model_config then Inl frozen_instance
      else Inr (case a of
                  set_pair_limit_id v \<Rightarrow> p\<lparr>LinkedLimitWeightPair.limit_id := v\<rparr>
                | set_pair_weight v \<Rightarrow> p\<lparr>LinkedLimitWeightPair.weight := v\<rparr>))"

section \<open>Throttler and admission context\<close>

text \<open>
  Modelled from the spec: the throttler state (section 3.4). The module
  \<open>networkpype/throttler/throttler.py\<close> is not among the sources; only its tests are.
  The mutex is not a field: every operation below is one critical section.
\<close>

record AsyncThrottler =
  rate_limits :: "RateLimit list"
  task_logs :: "TaskLog list"
  retry_interval :: real
  safety_margin_pct :: real
  limits_share_percentage :: real

datatype throttler_error = ConfigError | NoSuchLimit

text \<open>
  Modelled from the spec: the effective copy of a descriptor (section 4.1), whose
  \<open>limit\<close> is \<open>floor(original_limit * limits_share_percentage / 100)\<close>.
\<close>

definition effective_limit :: "real \<Rightarrow> RateLimit \<Rightarrow> RateLimit" where
  "effective_limit p l = l\<lparr>limit := \<lfloor>real_of_int (limit l) * p / 100\<rfloor>\<rparr>"

text \<open>
  Modelled from the spec: \<open>new_throttler\<close> (sections 4.1 and 6), the constructor of the
  absent class \<open>AsyncThrottler\<close>. Errors: a duplicate \<open>limit_id\<close>, a negative
  \<open>retry_interval\<close>, \<open>safety_margin_pct\<close> outside \<open>[0, 1)\<close>,
  \<open>limits_share_percentage\<close> outside \<open>(0, 100]\<close>.
\<close>

definition new_throttler ::
  "RateLimit list \<Rightarrow> real \<Rightarrow> real \<Rightarrow> real \<Rightarrow> throttler_error + AsyncThrottler" where
  "new_throttler rs ri sm p =
     (if \<not> distinct (map RateLimit.limit_id rs) then Inl ConfigError
      else if ri < 0 then Inl ConfigError
      else if \<not> (0 \<le> sm \<and> sm < 1) then Inl ConfigError
      else if \<not> (0 < p \<and> p \<le> 100) then Inl ConfigError
      else Inr \<lparr>rate_limits = map (effective_limit p) rs,
                task_logs = [],
                retry_interval = ri,
                safety_margin_pct = sm,
                limits_share_percentage = p\<rparr>)"

text \<open>
  Modelled from the spec: the index of the effective list by \<open>limit_id\<close> (section 4.1).
\<close>

definition id_to_limit_map :: "AsyncThrottler \<Rightarrow> (string \<rightharpoonup> RateLimit)" where
  "id_to_limit_map thr = map_of (map (\<lambda>l. (RateLimit.limit_id l, l)) (rate_limits thr))"

text \<open>
  Modelled from the spec: resolving the linked edges of a primary (section 4.2), one
  pair per edge whose id is known, in declaration order; unknown ids are skipped.
\<close>

fun linked_pairs ::
  "(string \<rightharpoonup> RateLimit) \<Rightarrow> LinkedLimitWeightPair list \<Rightarrow> (RateLimit \<times> int) list" where
  "linked_pairs m [] = []"
| "linked_pairs m (e # es) =
     (case m (LinkedLimitWeightPair.limit_id e) of
        None \<Rightarrow> linked_pairs m es
      | Some l \<Rightarrow> (l, LinkedLimitWeightPair.weight e) # linked_pairs m es)"

text \<open>
  Modelled from the spec: \<open>get_related_limits\<close> (sections 4.2 and 6, item 4) of the
  absent class \<open>AsyncThrottler\<close>: \<open>(null, empty)\<close> for an unknown id, otherwise the
  primary and the sequence that starts with \<open>(primary, primary.weight)\<close>.
\<close>

definition get_related_limits ::
  "AsyncThrottler \<Rightarrow> string \<Rightarrow> RateLimit option \<times> (RateLimit \<times> int) list" where
  "get_related_limits thr lid =
     (case id_to_limit_map thr lid of
        None \<Rightarrow> (None, [])
      | Some primary \<Rightarrow>
          (Some primary,
           (primary, RateLimit.weight primary)
             # linked_pairs (id_to_limit_map thr) (linked_limits primary)))"

text \<open>
  Modelled from the spec: pruning (section 4.3), which drops every entry older than the
  \<open>time_interval\<close> of the effective limit its id names. The absent module is
  \<open>networkpype/throttler/context.py\<close>. An entry whose id names no limit (none is ever
  appended by the throttler) is kept.
\<close>

definition prune :: "(string \<rightharpoonup> RateLimit) \<Rightarrow> real \<Rightarrow> TaskLog list \<Rightarrow> TaskLog list" where
  "prune m now logs =
     filter (\<lambda>e. case m (RateLimit.limit_id (rate_limit e)) of
                    None \<Rightarrow> True
                  | Some l \<Rightarrow> \<not> (now - timestamp e > time_interval l)) logs"

text \<open>
  Modelled from the spec: the in-window sum of a limit (section 4.3): the weights of
  the entries with the limit's id whose age is at most its \<open>time_interval\<close>.
\<close>

definition window_sum :: "RateLimit \<Rightarrow> real \<Rightarrow> TaskLog list \<Rightarrow> int" where
  "window_sum l now logs =
     sum_list (map TaskLog.weight
       (filter (\<lambda>e. RateLimit.limit_id (rate_limit e) = RateLimit.limit_id l
                     \<and> now - timestamp e \<le> time_interval l) logs))"

text \<open>
  Modelled from the spec: the cap of a limit (section 4.3),
  \<open>floor(limit * (1 - safety_margin_pct))\<close>.
\<close>

definition cap :: "real \<Rightarrow> RateLimit \<Rightarrow> int" where
  "cap sm l = \<lfloor>real_of_int (limit l) * (1 - sm)\<rfloor>"

text \<open>
  Modelled from the spec: the admission check (section 4.3), the loop over the related
  limits that stops at the first limit without headroom.
\<close>

fun within_capacity :: "real \<Rightarrow> real \<Rightarrow> TaskLog list \<Rightarrow> (RateLimit \<times> int) list \<Rightarrow> bool" where
  "within_capacity sm now logs [] = True"
| "within_capacity sm now logs ((l, charge_weight) # rest) =
     (if window_sum l now logs + charge_weight > cap sm l then False
      else within_capacity sm now logs rest)"

text \<open>
  Modelled from the spec: the entries an admission appends (section 4.3), one per
  related limit, all with the timestamp of the admission.
\<close>

definition new_entries :: "real \<Rightarrow> (RateLimit \<times> int) list \<Rightarrow> TaskLog list" where
  "new_entries now related =
     map (\<lambda>(l, charge_weight). \<lparr>timestamp = now, rate_limit = l, TaskLog.weight = charge_weight\<rparr>)
       related"

text \<open>
  Modelled from the spec: one iteration of the admission loop (section 4.3), the
  critical section under the lock at clock reading \<open>now\<close>: prune, check, and append
  when admitted. The result says whether the caller was admitted, and gives the log.
\<close>

definition poll ::
  "real \<Rightarrow> (string \<rightharpoonup> RateLimit) \<Rightarrow> (RateLimit \<times> int) list \<Rightarrow> real \<Rightarrow> TaskLog list
   \<Rightarrow> bool \<times> TaskLog list" where
  "poll sm m related now logs =
     (let logs1 = prune m now logs
      in if within_capacity sm now logs1 related
         then (True, logs1 @ new_entries now related)
         else (False, logs1))"

text \<open>
  Modelled from the spec: the admission loop (section 4.3). The clock readings of the
  successive iterations are given as a list; between two of them the caller sleeps
  \<open>retry_interval\<close>. The result is whether the caller was admitted, the log, and the
  number of sleeps; with the readings used up the caller is still waiting.
\<close>

fun acquire ::
  "real \<Rightarrow> (string \<rightharpoonup> RateLimit) \<Rightarrow> (RateLimit \<times> int) list \<Rightarrow> real list \<Rightarrow> TaskLog list
   \<Rightarrow> bool \<times> TaskLog list \<times> nat" where
  "acquire sm m related [] logs = (False, logs, 0)"
| "acquire sm m related (now # clock) logs =
     (case poll sm m related now logs of
        (True, logs') \<Rightarrow> (True, logs', 0)
      | (False, logs') \<Rightarrow>
          (case acquire sm m related clock logs' of
             (admitted, logs'', sleeps) \<Rightarrow> (admitted, logs'', Suc sleeps)))"

text \<open>
  Modelled from the spec: \<open>execute_task\<close> (sections 4.3, 6 and 7) with the acquisition
  of the context it returns: \<open>NoSuchLimit\<close> for an unknown id, otherwise the admission
  loop on the throttler's log. The result is the outcome, the throttler as the call
  leaves it, and the number of sleeps.
\<close>

definition execute_task ::
  "AsyncThrottler \<Rightarrow> string \<Rightarrow> real list \<Rightarrow> (throttler_error + bool) \<times> AsyncThrottler \<times> nat" where
  "execute_task thr lid clock =
     (case get_related_limits thr lid of
        (None, _) \<Rightarrow> (Inl NoSuchLimit, thr, 0)
      | (Some primary, related) \<Rightarrow>
          (case acquire (safety_margin_pct thr) (id_to_limit_map thr) related clock (task_logs thr) of
             (admitted, logs', sleeps) \<Rightarrow> (Inr admitted, thr\<lparr>task_logs := logs'\<rparr>, sleeps)))"

text \<open>
  Modelled from the spec: a run of the throttler (section 5). Callers share the
  throttler and the lock serialises their iterations, so a run is a sequence of
  iterations, each by a caller waiting on some limit id at some clock reading.
\<close>

definition step :: "AsyncThrottler \<Rightarrow> string \<times> real \<Rightarrow> AsyncThrottler" where
  "step thr ev =
     (case get_related_limits thr (fst ev) of
        (None, _) \<Rightarrow> thr
      | (Some primary, related) \<Rightarrow>
          thr\<lparr>task_logs :=
                snd (poll (safety_margin_pct thr) (id_to_limit_map thr) related (snd ev)
                       (task_logs thr))\<rparr>)"

definition run :: "AsyncThrottler \<Rightarrow> (string \<times> real) list \<Rightarrow> AsyncThrottler" where
  "run thr evs = foldl step thr evs"

text \<open>The log after the iterations at the given clock readings pruned it in turn.\<close>

definition prune_all :: "(string \<rightharpoonup> RateLimit) \<Rightarrow> real list \<Rightarrow> TaskLog list \<Rightarrow> TaskLog list" where
  "prune_all m ts logs = foldl (\<lambda>acc t. prune m t acc) logs ts"

text \<open>A constructor call is rejected with a given error when it returns an error list holding it.\<close>

definition rejected_with :: "validation_error \<Rightarrow> validation_error list + 'a \<Rightarrow> bool" where
  "rejected_with e res = (case res of Inl errs \<Rightarrow> e \<in> set errs | Inr _ \<Rightarrow> False)"

text \<open>Example values used in the concrete checks below.\<close>

definition test_limits :: "RateLimit list" where
  "test_limits =
     [\<lparr>RateLimit.limit_id = ''test1'', limit = 100, time_interval = 60, RateLimit.weight = 1, linked_limits = []\<rparr>,
      \<lparr>RateLimit.limit_id = ''test2'', limit = 200, time_interval = 60, RateLimit.weight = 1, linked_limits = []\<rparr>,
      \<lparr>RateLimit.limit_id = ''test3'', limit = 300, time_interval = 60, RateLimit.weight = 1, linked_limits = []\<rparr>]"

section \<open>Properties of the rate-limit model\<close>

lemma filter_loop_eq:
  "filter_loop rs ids acc = acc @ filter (\<lambda>l. RateLimit.limit_id l \<notin> set ids) rs"
  by (induction rs arbitrary: acc) simp_all

lemma negative_fields_rejected:
  "lm < 0 \<Longrightarrow> rejected_with (''limit'', greater_than_equal) (mk_RateLimit i (Some lm) t w ls)"
  "ti < 0 \<Longrightarrow> rejected_with (''time_interval'', greater_than_equal) (mk_RateLimit i l (Some ti) w ls)"
  "wt < 0 \<Longrightarrow> rejected_with (''weight'', greater_than_equal) (mk_RateLimit i l t (Some wt) ls)"
  "wt < 0 \<Longrightarrow> rejected_with (''weight'', greater_than_equal) (mk_LinkedLimitWeightPair i (Some wt))"
  by (simp_all add: rejected_with_def mk_RateLimit_def mk_LinkedLimitWeightPair_def
      required_field_ge_def Let_def)

text \<open>
  C6, at the input that shows the defect: a \<open>TaskLog\<close> built with weight \<open>-1\<close> is
  accepted, because its \<open>weight\<close> field carries no \<open>ge=0\<close>, unlike the weights of
  \<open>RateLimit\<close> and \<open>LinkedLimitWeightPair\<close>.
\<close>

theorem TaskLog_negative_weight_accepted:
  "mk_TaskLog (Some 0) (Some (hd test_limits)) (Some (- 1)) =
     Inr \<lparr>timestamp = 0, rate_limit = hd test_limits, TaskLog.weight = - 1\<rparr>"
  by (simp add: mk_TaskLog_def required_field_def)

text \<open>
  C7 as stated fails: a \<open>RateLimit\<close> whose \<open>limit_id\<close> is the empty string is
  constructed, not rejected.
\<close>

theorem empty_limit_id_accepted:
  "mk_RateLimit (Some []) (Some 10) (Some 1) (Some 1) None =
     Inr \<lparr>RateLimit.limit_id = [], limit = 10, time_interval = 1, RateLimit.weight = 1,
          linked_limits = []\<rparr>"
  by (simp add: mk_RateLimit_def required_field_def required_field_ge_def)

text \<open>
  C7, amended: \<open>limit_id\<close> is a required string with no further constraint. A
  construction without it is rejected as missing, and every string, the empty one
  included, is accepted when the numeric fields are non-negative.
\<close>

theorem limit_id_required_unconstrained:
  "rejected_with (''limit_id'', missing) (mk_RateLimit None lm ti w ls)
   \<and> (0 \<le> l \<and> 0 \<le> t \<and> 0 \<le> wt \<longrightarrow>
        mk_RateLimit (Some s) (Some l) (Some t) (Some wt) (Some ps) =
          Inr \<lparr>RateLimit.limit_id = s, limit = l, time_interval = t, RateLimit.weight = wt,
               linked_limits = ps\<rparr>)"
  by (simp add: rejected_with_def mk_RateLimit_def required_field_def required_field_ge_def
      Let_def)

theorem limit_id_required_unconstrained_witness:
  "rejected_with (''limit_id'', missing) (mk_RateLimit None (Some 100) (Some 60) (Some 1) None)
   \<and> mk_RateLimit (Some []) (Some 100) (Some 60) (Some 3) (Some []) =
        Inr \<lparr>RateLimit.limit_id = [], limit = 100, time_interval = 60, RateLimit.weight = 3,
             linked_limits = []\<rparr>"
  using limit_id_required_unconstrained
    [of "Some 100" "Some 60" "Some 1" None 100 60 3 "[]" "[]"]
  by simp

text \<open>
  C8 as stated fails: assigning \<open>limit\<close> on a constructed \<open>RateLimit\<close> is accepted
  and changes the field.
\<close>

theorem assignment_accepted:
  "setattr_RateLimit (hd test_limits) (set_limit 5) =
     Inr \<lparr>RateLimit.limit_id = ''test1'', limit = 5, time_interval = 60, RateLimit.weight = 1,
          linked_limits = []\<rparr>"
  by (simp add: setattr_RateLimit_def model_config_def test_limits_def)

text \<open>
  C8, amended: the classes are not frozen. A field assignment on a \<open>RateLimit\<close> or a
  \<open>LinkedLimitWeightPair\<close> is accepted and replaces the assigned field only; the
  module's own operation \<open>filter_rate_limits_list\<close> changes no field: every element
  of its result is an element of its argument, and the argument list is left as it was.
\<close>

theorem assignment_changes_one_field:
  "setattr_RateLimit r (set_limit_id s) = Inr (r\<lparr>RateLimit.limit_id := s\<rparr>)
   \<and> setattr_RateLimit r (set_limit n) = Inr (r\<lparr>limit := n\<rparr>)
   \<and> setattr_RateLimit r (set_time_interval t) = Inr (r\<lparr>time_interval := t\<rparr>)
   \<and> setattr_RateLimit r (set_weight w) = Inr (r\<lparr>RateLimit.weight := w\<rparr>)
   \<and> setattr_RateLimit r (set_linked_limits ps) = Inr (r\<lparr>linked_limits := ps\<rparr>)
   \<and> setattr_LinkedLimitWeightPair p (set_pair_limit_id s) =
        Inr (p\<lparr>LinkedLimitWeightPair.limit_id := s\<rparr>)
   \<and> setattr_LinkedLimitWeightPair p (set_pair_weight w) =
        Inr (p\<lparr>LinkedLimitWeightPair.weight := w\<rparr>)
   \<and> set (snd (filter_rate_limits_list rs ids)) \<subseteq> set rs
   \<and> fst (filter_rate_limits_list rs ids) = rs"
  by (simp add: setattr_RateLimit_def setattr_LinkedLimitWeightPair_def model_config_def
      filter_rate_limits_list_def filter_loop_eq)

theorem assignment_changes_one_field_witness:
  "setattr_RateLimit (hd test_limits) (set_weight 7) =
     Inr \<lparr>RateLimit.limit_id = ''test1'', limit = 100, time_interval = 60, RateLimit.weight = 7,
          linked_limits = []\<rparr>
   \<and> fst (filter_rate_limits_list test_limits [''test1'']) = test_limits"
  using assignment_changes_one_field
    [of "hd test_limits" "[]" 0 0 7 "[]" "\<lparr>LinkedLimitWeightPair.limit_id = [], LinkedLimitWeightPair.weight = 0\<rparr>"
        test_limits "[''test1'']"]
  by (simp add: test_limits_def)

text \<open>
  C9: \<open>filter_rate_limits_list\<close> returns exactly the elements of the argument whose
  \<open>limit_id\<close> is not excluded, in their original order, and leaves the argument list
  unchanged. With nothing excluded the result is the argument; when every id is
  excluded the result is empty.
\<close>

theorem filter_rate_limits_list_correct:
  "snd (filter_rate_limits_list rs excluded) =
     filter (\<lambda>l. RateLimit.limit_id l \<notin> set excluded) rs
   \<and> fst (filter_rate_limits_list rs excluded) = rs
   \<and> snd (filter_rate_limits_list rs []) = rs
   \<and> (RateLimit.limit_id ` set rs \<subseteq> set excluded \<longrightarrow>
        snd (filter_rate_limits_list rs excluded) = [])"
  by (auto simp: filter_rate_limits_list_def filter_loop_eq filter_empty_conv)

theorem filter_rate_limits_list_correct_witness:
  "snd (filter_rate_limits_list test_limits [''test1'', ''test2'', ''test3'']) = []
   \<and> snd (filter_rate_limits_list test_limits [''test1'', ''test2'']) = [test_limits ! 2]
   \<and> fst (filter_rate_limits_list test_limits [''test1'', ''test2'', ''test3'']) = test_limits"
  using filter_rate_limits_list_correct [of test_limits "[''test1'', ''test2'', ''test3'']"]
    filter_rate_limits_list_correct [of test_limits "[''test1'', ''test2'']"]
  by (simp add: test_limits_def)

text \<open>
  C10: \<open>weight\<close> has no default on any of the three classes. A construction that omits
  it is rejected with a \<open>missing\<close> error for \<open>weight\<close>, whatever the other arguments.
\<close>

theorem weight_is_required:
  "rejected_with (''weight'', missing) (mk_RateLimit i l t None ls)
   \<and> rejected_with (''weight'', missing) (mk_LinkedLimitWeightPair i None)
   \<and> rejected_with (''weight'', missing) (mk_TaskLog ts r None)"
  by (simp add: rejected_with_def mk_RateLimit_def mk_LinkedLimitWeightPair_def mk_TaskLog_def
      required_field_def required_field_ge_def Let_def)

theorem weight_is_required_witness:
  "rejected_with (''weight'', missing) (mk_RateLimit (Some ''test'') (Some 100) (Some 60) None None)
   \<and> rejected_with (''weight'', missing) (mk_LinkedLimitWeightPair (Some ''test'') None)
   \<and> rejected_with (''weight'', missing) (mk_TaskLog (Some 0) (Some (hd test_limits)) None)"
  using weight_is_required [of "Some ''test''" "Some 100" "Some 60" None "Some 0" "Some (hd test_limits)"]
  by simp

end
